theory Spec2Isabelle
  imports Main
begin

section \<open>JavaScript values used by the crawl engine\<close>

text \<open>
  Strings are lists of code units below 256. Truthiness of a string is non-emptiness;
  an absent (undefined or null) property is \<open>None\<close>.
\<close>

definition js_truthy :: "string option \<Rightarrow> bool" where
  "js_truthy v = (case v of None \<Rightarrow> False | Some s \<Rightarrow> s \<noteq> [])"

text \<open>\<open>String.prototype.trim\<close>: white space and line terminators at both ends.\<close>

definition is_js_space :: "char \<Rightarrow> bool" where
  "is_js_space c = (c = CHR 0x09 \<or> c = CHR 0x0A \<or> c = CHR 0x0B \<or> c = CHR 0x0C
                    \<or> c = CHR 0x0D \<or> c = CHR 0x20 \<or> c = CHR 0xA0)"

definition js_trim :: "string \<Rightarrow> string" where
  "js_trim s = rev (dropWhile is_js_space (rev (dropWhile is_js_space s)))"

text \<open>\<open>String.prototype.includes\<close>: the argument occurs as a contiguous substring.\<close>

fun starts_with :: "string \<Rightarrow> string \<Rightarrow> bool" where
  "starts_with s [] = True"
| "starts_with [] (p # ps) = False"
| "starts_with (c # cs) (p # ps) = (c = p \<and> starts_with cs ps)"

fun js_includes :: "string \<Rightarrow> string \<Rightarrow> bool" where
  "js_includes [] sub = starts_with [] sub"
| "js_includes (c # cs) sub = (starts_with (c # cs) sub \<or> js_includes cs sub)"

text \<open>\<open>split(',')\<close>: the pieces between commas; the empty string gives one empty piece.\<close>

fun split_comma :: "string \<Rightarrow> string list" where
  "split_comma [] = [[]]"
| "split_comma (c # cs) =
     (if c = CHR '','' then [] # split_comma cs
      else (case split_comma cs of [] \<Rightarrow> [[c]] | p # ps \<Rightarrow> (c # p) # ps))"

text \<open>
  An identifier arrives either as a JavaScript number or as a string. \<open>toString\<close> of a
  string is the string itself; of an integral number of magnitude below \<open>10^21\<close> it is the
  decimal numeral. \<open>IdNum\<close> stands for such numbers only: from \<open>10^21\<close> on, and for
  numbers that are not integral, JavaScript prints another form, which is not modelled.
\<close>

datatype js_id = IdNum int | IdStr string

fun nat_to_string :: "nat \<Rightarrow> string" where
  "nat_to_string n =
     (if n < 10 then [''0123456789'' ! n]
      else nat_to_string (n div 10) @ [''0123456789'' ! (n mod 10)])"

fun toString :: "js_id \<Rightarrow> string" where
  "toString (IdNum i) = (if i < 0 then CHR ''-'' # nat_to_string (nat (- i)) else nat_to_string (nat i))"
| "toString (IdStr s) = s"


section \<open>config/searchParams.js\<close>

text \<open>
  \<open>title.replace(/^[{"}]+|["}]+$/g, '')\<close>: the first alternative removes the longest
  run of brace and quote characters at the start, the second the longest run of quote and
  closing-brace characters at the end of what remains.
\<close>

definition is_lead_junk :: "char \<Rightarrow> bool" where
  "is_lead_junk c = (c = CHR ''{'' \<or> c = CHR 0x22 \<or> c = CHR ''}'')"

definition is_trail_junk :: "char \<Rightarrow> bool" where
  "is_trail_junk c = (c = CHR 0x22 \<or> c = CHR ''}'')"

definition strip_junk :: "string \<Rightarrow> string" where
  "strip_junk title = rev (dropWhile is_trail_junk (rev (dropWhile is_lead_junk title)))"

text \<open>The callback of \<open>flatMap\<close> in \<open>cleanJobTitles\<close>, for one raw title.\<close>

definition clean_title :: "string \<Rightarrow> string list" where
  "clean_title title =
     (if title = [] then []
      else filter (\<lambda>t. length t > 0) (map js_trim (split_comma (strip_junk title))))"

text \<open>The argument of \<open>cleanJobTitles\<close>: an array of strings, or anything else.\<close>

datatype titles_arg = NotAnArray | TitleArray "string list"

fun cleanJobTitles :: "titles_arg \<Rightarrow> string list" where
  "cleanJobTitles NotAnArray = []"
| "cleanJobTitles (TitleArray jobTitles) = concat (map clean_title jobTitles)"

record naics_entry =
  entry_naicsCode :: string
  entry_name :: string

text \<open>A parameter group of the JSON file; a missing list is \<open>None\<close>.\<close>

record param_group =
  locations :: "string list option"
  job_titles :: "string list option"
  naics_codes :: "naics_entry list option"

record combination =
  groupIndex :: nat
  location :: string
  naicsCode :: string
  naicsName :: string
  jobTitle :: string

text \<open>\<open>!xs?.length\<close>: the list is missing or empty.\<close>

definition no_length :: "'a list option \<Rightarrow> bool" where
  "no_length xs = (case xs of None \<Rightarrow> True | Some l \<Rightarrow> length l = 0)"

text \<open>The elements a \<open>for ... of\<close> loop runs over.\<close>

definition elements :: "'a list option \<Rightarrow> 'a list" where
  "elements xs = (case xs of None \<Rightarrow> [] | Some l \<Rightarrow> l)"

text \<open>The three nested \<open>for ... of\<close> loops over one group that passed the filter.\<close>

definition group_combinations :: "nat \<Rightarrow> string list \<Rightarrow> naics_entry list \<Rightarrow> string list \<Rightarrow> combination list" where
  "group_combinations gi locs naics cleanedJobTitles =
     concat (map (\<lambda>loc.
       concat (map (\<lambda>nc.
         map (\<lambda>jt. \<lparr> groupIndex = gi, location = js_trim loc,
                      naicsCode = entry_naicsCode nc, naicsName = entry_name nc,
                      jobTitle = js_trim jt \<rparr>) cleanedJobTitles) naics)) locs)"

text \<open>The outer loop over the groups, with its \<open>continue\<close> for incomplete groups.\<close>

fun groups_loop :: "nat \<Rightarrow> param_group list \<Rightarrow> combination list \<Rightarrow> combination list" where
  "groups_loop gi [] combinations = combinations"
| "groups_loop gi (g # gs) combinations =
     (if no_length (locations g) \<or> no_length (job_titles g) \<or> no_length (naics_codes g)
      then groups_loop (Suc gi) gs combinations
      else groups_loop (Suc gi) gs
             (combinations @ group_combinations gi (elements (locations g)) (elements (naics_codes g))
                (cleanJobTitles (case job_titles g of None \<Rightarrow> NotAnArray | Some ts \<Rightarrow> TitleArray ts))))"

definition getSearchCombinations :: "param_group list \<Rightarrow> combination list" where
  "getSearchCombinations searchParameterGroups = groups_loop 0 searchParameterGroups []"

text \<open>
  The count the specification gives for one group: the product of the three list lengths
  when all three lists are present and non-empty, zero otherwise.
\<close>

definition spec_group_count :: "param_group \<Rightarrow> nat" where
  "spec_group_count g =
     (case (locations g, job_titles g, naics_codes g) of
        (Some ls, Some ts, Some ns) \<Rightarrow>
          (if ls \<noteq> [] \<and> ts \<noteq> [] \<and> ns \<noteq> []
           then length ls * length (cleanJobTitles (TitleArray ts)) * length ns else 0)
      | _ \<Rightarrow> 0)"

text \<open>
  A title the cleaning leaves alone: not empty, no comma, no white space at either end,
  no brace or quote at the start and no quote or closing brace at the end.
\<close>

definition is_clean_title :: "string \<Rightarrow> bool" where
  "is_clean_title t =
     (t \<noteq> [] \<and> CHR '','' \<notin> set t
      \<and> \<not> is_js_space (hd t) \<and> \<not> is_js_space (last t)
      \<and> \<not> is_lead_junk (hd t) \<and> \<not> is_trail_junk (last t))"


text \<open>A title with no brace or quote for the cleaning to strip at either end.\<close>

definition no_junk_ends :: "string \<Rightarrow> bool" where
  "no_junk_ends t = (\<not> is_lead_junk (hd t) \<and> \<not> is_trail_junk (last t))"


section \<open>services/bucketService.js\<close>

text \<open>
  The service keeps the exclusion set (a JavaScript \<open>Set\<close> of strings, which iterates in
  insertion order), the local CSV file and the object uploaded to the bucket.
\<close>

record bucket_service =
  companyExclusions :: "string list"
  exclusionsFile :: "string option"
  uploadedExclusions :: "string option"

definition new_BucketService :: bucket_service where
  "new_BucketService = \<lparr> companyExclusions = [], exclusionsFile = None, uploadedExclusions = None \<rparr>"

definition set_add :: "string \<Rightarrow> string list \<Rightarrow> string list" where
  "set_add s xs = (if s \<in> set xs then xs else xs @ [s])"

fun join_lines :: "string list \<Rightarrow> string" where
  "join_lines [] = []"
| "join_lines [x] = x"
| "join_lines (x # y # ys) = x @ CHR 0x0A # join_lines (y # ys)"

definition isCompanyExcluded :: "bucket_service \<Rightarrow> js_id \<Rightarrow> bool" where
  "isCompanyExcluded b ziId = (toString ziId \<in> set (companyExclusions b))"

text \<open>
  \<open>updateCompanyExclusions\<close>: the set is extended first; then the local file is written
  and uploaded. \<open>writeErr\<close> and \<open>uploadErr\<close> are the outcomes of the two durable writes
  (\<open>None\<close> for success, otherwise the error raised); the \<open>catch\<close> logs and rethrows.
\<close>

definition updateCompanyExclusions ::
  "string option \<Rightarrow> string option \<Rightarrow> js_id list \<Rightarrow> bucket_service \<Rightarrow> (string + unit) \<times> bucket_service" where
  "updateCompanyExclusions writeErr uploadErr newZiIds b =
     (let b1 = b\<lparr> companyExclusions := fold (\<lambda>ziId xs. set_add (toString ziId) xs) newZiIds (companyExclusions b) \<rparr>;
          exclusionList = join_lines (companyExclusions b1)
      in case writeErr of
           Some e \<Rightarrow> (Inl e, b1)
         | None \<Rightarrow>
             (let b2 = b1\<lparr> exclusionsFile := Some exclusionList \<rparr>
              in case uploadErr of
                   Some e \<Rightarrow> (Inl e, b2)
                 | None \<Rightarrow> (Inr (), b2\<lparr> uploadedExclusions := Some exclusionList \<rparr>)))"

text \<open>A run of the two operations on the set, in any order and number.\<close>

datatype bucket_op =
    OpIsExcluded js_id
  | OpUpdate "string option" "string option" "js_id list"

fun apply_bucket_op :: "bucket_op \<Rightarrow> bucket_service \<Rightarrow> bucket_service" where
  "apply_bucket_op (OpIsExcluded ziId) b = b"
| "apply_bucket_op (OpUpdate writeErr uploadErr newZiIds) b =
     snd (updateCompanyExclusions writeErr uploadErr newZiIds b)"

definition run_bucket_ops :: "bucket_op list \<Rightarrow> bucket_service \<Rightarrow> bucket_service" where
  "run_bucket_ops ops b = fold apply_bucket_op ops b"


section \<open>services/stateManager.js\<close>

record job_state =
  currentStateIndex :: nat
  currentNaicsIndex :: nat
  currentJobTitleIndex :: nat
  currentCombinationIndex :: "nat option"
  currentPage :: nat
  processedCompanies :: nat
  processedContacts :: nat
  startTime :: "nat option"
  lastSaveTime :: "nat option"
  completed :: bool
  completedTime :: "nat option"

text \<open>The manager: the state in memory and the state file (\<open>None\<close> when it does not exist).\<close>

record state_manager =
  state :: job_state
  stateFile :: "job_state option"

text \<open>
  \<open>saveState\<close>: stamps the time, creates the directory and writes the file. An error of
  either step is caught and logged; the \<open>catch\<close> block does not rethrow, so the call
  completes normally either way.
\<close>

definition saveState :: "nat \<Rightarrow> string option \<Rightarrow> string option \<Rightarrow> state_manager \<Rightarrow> (string + unit) \<times> state_manager" where
  "saveState now mkdirErr writeErr m =
     (let m1 = m\<lparr> state := (state m)\<lparr> lastSaveTime := Some now \<rparr> \<rparr>
      in case mkdirErr of
           Some e \<Rightarrow> (Inr (), m1)
         | None \<Rightarrow>
             (case writeErr of
                Some e \<Rightarrow> (Inr (), m1)
              | None \<Rightarrow> (Inr (), m1\<lparr> stateFile := Some (state m1) \<rparr>)))"

definition getCurrentState :: "state_manager \<Rightarrow> job_state" where
  "getCurrentState m = state m"

definition markCompleted :: "nat \<Rightarrow> string option \<Rightarrow> string option \<Rightarrow> state_manager \<Rightarrow> state_manager" where
  "markCompleted now mkdirErr writeErr m =
     snd (saveState now mkdirErr writeErr
            (m\<lparr> state := (state m)\<lparr> completed := True, completedTime := Some now \<rparr> \<rparr>))"


definition initial_state :: job_state where
  "initial_state = \<lparr> currentStateIndex = 0, currentNaicsIndex = 0, currentJobTitleIndex = 0,
      currentCombinationIndex = None, currentPage = 1, processedCompanies = 0,
      processedContacts = 0, startTime = None, lastSaveTime = None, completed = False,
      completedTime = None \<rparr>"

definition new_StateManager :: state_manager where
  "new_StateManager = \<lparr> state = initial_state, stateFile = None \<rparr>"

text \<open>\<open>updateProgress\<close> assigns the given fields; the update is a function on the record.\<close>

definition updateProgress :: "(job_state \<Rightarrow> job_state) \<Rightarrow> state_manager \<Rightarrow> state_manager" where
  "updateProgress updates m = m\<lparr> state := updates (state m) \<rparr>"


section \<open>services/zoomInfoService.js\<close>

record token_file =
  tf_token :: string
  tf_expiresAt :: nat

record zoominfo_service =
  currentToken :: "string option"
  tokenExpiresAt :: "nat option"
  tokenFile :: "token_file option"

text \<open>
  The answer to one request: the response data, or an error with the HTTP status of
  its response (\<open>None\<close> when the error carries no response).
\<close>

datatype http_response = HttpOk string | HttpError "nat option"

text \<open>
  What the service meets outside itself, attempt by attempt (the attempt is the
  \<open>retryCount\<close> of the call): the clock in milliseconds, the answer of the
  authentication endpoint, the outcome of writing the token file, and the answer of the
  API to a request carrying a given bearer token.
\<close>

record zi_env =
  env_now :: "nat \<Rightarrow> nat"
  env_authenticate :: "nat \<Rightarrow> string + string"
  env_tokenWriteErr :: "nat \<Rightarrow> string option"
  env_post :: "nat \<Rightarrow> string \<Rightarrow> http_response"

definition refreshToken :: "zi_env \<Rightarrow> nat \<Rightarrow> zoominfo_service \<Rightarrow> (string + string) \<times> zoominfo_service" where
  "refreshToken env k svc =
     (case env_authenticate env k of
        Inl msg \<Rightarrow> (Inl (''Token refresh failed: '' @ msg), svc)
      | Inr jwt \<Rightarrow>
          (let expiresAt = env_now env k + 60 * 60 * 1000;
               svc1 = svc\<lparr> currentToken := Some jwt, tokenExpiresAt := Some expiresAt \<rparr>
           in case env_tokenWriteErr env k of
                Some e \<Rightarrow> (Inl (''Token refresh failed: '' @ e), svc1)
              | None \<Rightarrow> (Inr jwt, svc1\<lparr> tokenFile := Some \<lparr> tf_token = jwt, tf_expiresAt = expiresAt \<rparr> \<rparr>)))"

text \<open>The second and third steps of \<open>getJwtToken\<close>: the token file, then a new token.\<close>

definition token_from_file :: "zi_env \<Rightarrow> nat \<Rightarrow> zoominfo_service \<Rightarrow> (string + string) \<times> zoominfo_service" where
  "token_from_file env k svc =
     (case tokenFile svc of
        Some f \<Rightarrow>
          (if tf_expiresAt f > env_now env k
           then (Inr (tf_token f), svc\<lparr> currentToken := Some (tf_token f), tokenExpiresAt := Some (tf_expiresAt f) \<rparr>)
           else refreshToken env k svc)
      | None \<Rightarrow> refreshToken env k svc)"

definition getJwtToken :: "zi_env \<Rightarrow> nat \<Rightarrow> zoominfo_service \<Rightarrow> (string + string) \<times> zoominfo_service" where
  "getJwtToken env k svc =
     (case (currentToken svc, tokenExpiresAt svc) of
        (Some t, Some e) \<Rightarrow>
          (if t \<noteq> [] \<and> env_now env k < e then (Inr t, svc) else token_from_file env k svc)
      | _ \<Rightarrow> token_from_file env k svc)"

datatype api_error = RequestFailed "nat option"

text \<open>
  \<open>makeAPICall\<close>. The result is the outcome, the service afterwards and the bearer tokens
  attached to the requests sent, in order. On 401 below the retry bound the token file is
  unlinked and the call retried; on 429 below the bound the call is retried after the
  wait; every other error is rethrown with its status.
\<close>

function makeAPICall :: "zi_env \<Rightarrow> nat \<Rightarrow> nat \<Rightarrow> zoominfo_service \<Rightarrow> (api_error + string) \<times> zoominfo_service \<times> string list" where
  "makeAPICall env maxRetries retryCount svc =
     (case getJwtToken env retryCount svc of
        (Inl msg, svc1) \<Rightarrow> (Inl (RequestFailed None), svc1, [])
      | (Inr token, svc1) \<Rightarrow>
          (case env_post env retryCount token of
             HttpOk d \<Rightarrow> (Inr d, svc1, [token])
           | HttpError status \<Rightarrow>
               (if status = Some 401 \<and> retryCount < maxRetries
                then (case makeAPICall env maxRetries (Suc retryCount) (svc1\<lparr> tokenFile := None \<rparr>) of
                        (r, svc2, sent) \<Rightarrow> (r, svc2, token # sent))
                else if status = Some 429 \<and> retryCount < maxRetries
                then (case makeAPICall env maxRetries (Suc retryCount) svc1 of
                        (r, svc2, sent) \<Rightarrow> (r, svc2, token # sent))
                else (Inl (RequestFailed status), svc1, [token]))))"
  by pat_completeness auto
termination
  by (relation "measure (\<lambda>(env, maxRetries, retryCount, svc). maxRetries - retryCount)") auto

text \<open>\<open>parseInt(process.env.MAX_RETRIES) || 3\<close>.\<close>

definition maxRetries_of :: "nat option \<Rightarrow> nat" where
  "maxRetries_of envMaxRetries = (case envMaxRetries of None \<Rightarrow> 3 | Some n \<Rightarrow> if n = 0 then 3 else n)"


section \<open>services/leadProcessor.js\<close>

record company =
  c_id :: js_id
  c_name :: string
  c_website :: "string option"
  c_phone :: "string option"

record contact =
  p_id :: js_id
  p_firstName :: "string option"
  p_lastName :: "string option"
  p_jobTitle :: "string option"

text \<open>\<open>enrichedContact.data?.result?.[0]?.data?.[0]\<close>, when it exists.\<close>

record enriched_data =
  e_email :: "string option"
  e_phone :: "string option"
  e_mobilePhone :: "string option"

record company_search_params =
  q_metroRegion :: "string option"
  q_state :: "string option"
  q_naicsCodes :: string
  q_rpp :: nat
  q_page :: nat

record company_results =
  r_data :: "company list option"
  r_totalCount :: "nat option"

record contact_search_params =
  k_companyId :: string
  k_jobTitle :: string
  k_contactAccuracyScoreMin :: string
  k_excludePartialProfiles :: bool
  k_rpp :: nat

record company_data =
  cd_ziId :: string
  cd_name :: string
  cd_state :: string
  cd_metroRegion :: string
  cd_naicsCode :: string
  cd_website :: string
  cd_phone :: string

record contact_data =
  ct_ziId :: string
  ct_companyZiId :: string
  ct_companyName :: string
  ct_name :: string
  ct_jobTitle :: string
  ct_email :: string
  ct_phone :: string
  ct_mobilePhone :: string
  ct_state :: string
  ct_metroRegion :: string
  ct_naicsCode :: string

text \<open>
  The collaborators of the processor, as the processor sees them. The n-th API call of a
  run (of any of the three kinds) is answered by the function at \<open>n\<close>, with an error
  message on the left; so the answers form an arbitrary sequence. The outcomes of the
  durable writes and of saving the CSV results, and the clock, are indexed the same way.
\<close>

record services =
  searchCompanies :: "nat \<Rightarrow> company_search_params \<Rightarrow> string + company_results"
  searchContacts :: "nat \<Rightarrow> contact_search_params \<Rightarrow> string + contact list option"
  enrichContact :: "nat \<Rightarrow> string \<Rightarrow> string + enriched_data option"
  exclusionsWriteErr :: "nat \<Rightarrow> string option"
  exclusionsUploadErr :: "nat \<Rightarrow> string option"
  saveResultsErr :: "nat \<Rightarrow> string option"
  clock :: "nat \<Rightarrow> nat"
  stateMkdirErr :: "nat \<Rightarrow> string option"
  stateWriteErr :: "nat \<Rightarrow> string option"

text \<open>
  The processor's own fields: \<open>parseInt(process.env.BATCH_SIZE) || 50\<close> and the
  combinations built from the configuration.
\<close>

record lead_processor =
  batchSize :: nat
  searchCombinations :: "combination list"

definition new_LeadProcessor :: "nat option \<Rightarrow> param_group list \<Rightarrow> lead_processor" where
  "new_LeadProcessor envBatchSize groups =
     \<lparr> batchSize = (case envBatchSize of None \<Rightarrow> 50 | Some n \<Rightarrow> if n = 0 then 50 else n),
       searchCombinations = getSearchCombinations groups \<rparr>"

text \<open>
  Everything a run changes: the state manager, the bucket service, the number of API
  calls made so far and the company searches issued, in order.
\<close>

record world =
  stateManager :: state_manager
  bucketService :: bucket_service
  apiCalls :: nat
  companySearches :: "company_search_params list"

definition isMetroRegion :: "string \<Rightarrow> bool" where
  "isMetroRegion loc = (js_includes loc '' - '' \<or> js_includes loc '', '')"

text \<open>\<open>v || d\<close> on an optional string.\<close>

definition js_or :: "string option \<Rightarrow> string \<Rightarrow> string" where
  "js_or v d = (case v of None \<Rightarrow> d | Some s \<Rightarrow> if s = [] then d else s)"

text \<open>The acceptance test of a contact, on the extracted enrichment record.\<close>

definition has_contact_info :: "enriched_data option \<Rightarrow> bool" where
  "has_contact_info enrichedData =
     (case enrichedData of
        None \<Rightarrow> False
      | Some d \<Rightarrow> js_truthy (e_email d) \<or> js_truthy (e_phone d) \<or> js_truthy (e_mobilePhone d))"

definition make_contactData :: "company \<Rightarrow> contact \<Rightarrow> enriched_data \<Rightarrow> string \<Rightarrow> string \<Rightarrow> string \<Rightarrow> contact_data" where
  "make_contactData co c d jt loc naics =
     \<lparr> ct_ziId = toString (p_id c),
       ct_companyZiId = toString (c_id co),
       ct_companyName = c_name co,
       ct_name = js_trim (js_or (p_firstName c) [] @ '' '' @ js_or (p_lastName c) []),
       ct_jobTitle = js_or (p_jobTitle c) jt,
       ct_email = js_or (e_email d) [],
       ct_phone = js_or (e_phone d) [],
       ct_mobilePhone = js_or (e_mobilePhone d) [],
       ct_state = (if isMetroRegion loc then [] else loc),
       ct_metroRegion = (if isMetroRegion loc then loc else []),
       ct_naicsCode = naics \<rparr>"

definition make_companyData :: "company \<Rightarrow> string \<Rightarrow> string \<Rightarrow> company_data" where
  "make_companyData co loc naics =
     \<lparr> cd_ziId = toString (c_id co),
       cd_name = c_name co,
       cd_state = (if isMetroRegion loc then [] else loc),
       cd_metroRegion = (if isMetroRegion loc then loc else []),
       cd_naicsCode = naics,
       cd_website = js_or (c_website co) [],
       cd_phone = js_or (c_phone co) [] \<rparr>"

text \<open>
  The inner loop of \<open>processCompaniesContacts\<close> over the contacts of one company: one
  enrichment call per contact; an enrichment error is caught and the contact skipped.
\<close>

fun enrich_loop ::
  "services \<Rightarrow> company \<Rightarrow> string \<Rightarrow> string \<Rightarrow> string \<Rightarrow> contact list \<Rightarrow> contact_data list \<Rightarrow> nat
     \<Rightarrow> contact_data list \<times> nat" where
  "enrich_loop svc co jt loc naics [] doneContacts n = (doneContacts, n)"
| "enrich_loop svc co jt loc naics (c # cs) doneContacts n =
     (case enrichContact svc n (toString (p_id c)) of
        Inl enrichError \<Rightarrow> enrich_loop svc co jt loc naics cs doneContacts (Suc n)
      | Inr enrichedData \<Rightarrow>
          (case enrichedData of
             None \<Rightarrow> enrich_loop svc co jt loc naics cs doneContacts (Suc n)
           | Some d \<Rightarrow>
               (if has_contact_info (Some d)
                then enrich_loop svc co jt loc naics cs
                       (doneContacts @ [make_contactData co c d jt loc naics]) (Suc n)
                else enrich_loop svc co jt loc naics cs doneContacts (Suc n))))"

text \<open>
  The outer loop of \<open>processCompaniesContacts\<close>: the company is recorded, its contacts
  are searched and enriched, and the processed counts are updated; an error of the contact
  search is caught, and the loop goes on with the next company.
\<close>

fun companies_loop ::
  "services \<Rightarrow> lead_processor \<Rightarrow> string \<Rightarrow> string \<Rightarrow> string \<Rightarrow> company list
     \<Rightarrow> company_data list \<Rightarrow> contact_data list \<Rightarrow> world
     \<Rightarrow> company_data list \<times> contact_data list \<times> world" where
  "companies_loop svc lp jt loc naics [] doneCompanies doneContacts w =
     (doneCompanies, doneContacts, w)"
| "companies_loop svc lp jt loc naics (co # rest) doneCompanies doneContacts w =
     (let doneCompanies1 = doneCompanies @ [make_companyData co loc naics];
          contactSearchParams = \<lparr> k_companyId = toString (c_id co), k_jobTitle = jt,
             k_contactAccuracyScoreMin = ''75'', k_excludePartialProfiles = True,
             k_rpp = batchSize lp \<rparr>;
          w1 = w\<lparr> apiCalls := Suc (apiCalls w) \<rparr>
      in case searchContacts svc (apiCalls w) contactSearchParams of
           Inl err \<Rightarrow> companies_loop svc lp jt loc naics rest doneCompanies1 doneContacts w1
         | Inr contactResults \<Rightarrow>
             (let (doneContacts1, n) =
                    (case contactResults of
                       None \<Rightarrow> (doneContacts, apiCalls w1)
                     | Some cs \<Rightarrow> enrich_loop svc co jt loc naics cs doneContacts (apiCalls w1));
                  w2 = w1\<lparr> apiCalls := n,
                     stateManager := updateProgress
                       (\<lambda>s. s\<lparr> processedCompanies := processedCompanies s + 1,
                                processedContacts := processedContacts s + length doneContacts1 \<rparr>)
                       (stateManager w1) \<rparr>
              in companies_loop svc lp jt loc naics rest doneCompanies1 doneContacts1 w2))"

definition processCompaniesContacts ::
  "services \<Rightarrow> lead_processor \<Rightarrow> company list \<Rightarrow> string \<Rightarrow> string \<Rightarrow> string \<Rightarrow> world
     \<Rightarrow> company_data list \<times> contact_data list \<times> world" where
  "processCompaniesContacts svc lp companies jt loc naics w =
     companies_loop svc lp jt loc naics companies [] [] w"

text \<open>The local variables of \<open>processCombination\<close> together with the world.\<close>

record loop_state =
  l_page :: nat
  l_consecutiveEmptyPages :: nat
  l_companies :: "company_data list"
  l_contacts :: "contact_data list"
  l_world :: world

datatype 's step = Continue 's | Break 's

text \<open>
  \<open>Math.ceil(totalCount / batchSize)\<close> compared with the page. An undefined total or a
  zero batch size gives NaN or Infinity, and the comparison \<open>page >= totalPages\<close> is false.
\<close>

definition page_reached_total :: "nat \<Rightarrow> nat option \<Rightarrow> nat \<Rightarrow> bool" where
  "page_reached_total pg totalCount bs =
     (case totalCount of
        None \<Rightarrow> False
      | Some t \<Rightarrow> if bs = 0 then False else pg \<ge> (t + bs - 1) div bs)"

text \<open>The \<open>catch\<close> block of the pagination loop.\<close>

definition catch_page_error :: "string \<Rightarrow> loop_state \<Rightarrow> loop_state step" where
  "catch_page_error message st =
     (if js_includes message ''400'' \<and> (js_includes message ''page number'' \<or> js_includes message ''greater than'')
      then Break st
      else (let pg = Suc (l_page st)
            in if pg > 50 then Break (st\<lparr> l_page := pg \<rparr>) else Continue (st\<lparr> l_page := pg \<rparr>)))"

text \<open>The end of the \<open>try\<close> block: the progress update and the test for more pages.\<close>

definition finish_page :: "lead_processor \<Rightarrow> company_results \<Rightarrow> loop_state \<Rightarrow> loop_state step" where
  "finish_page lp companyResults st =
     (let w = l_world st;
          st1 = st\<lparr> l_world := w\<lparr> stateManager :=
                   updateProgress (\<lambda>s. s\<lparr> currentPage := l_page st + 1 \<rparr>) (stateManager w) \<rparr> \<rparr>
      in if page_reached_total (l_page st) (r_totalCount companyResults) (batchSize lp)
         then Break st1
         else Continue (st1\<lparr> l_page := l_page st + 1 \<rparr>))"

text \<open>
  The \<open>try\<close> block of one iteration, up to the progress update: it throws (into the
  \<open>catch\<close> block), leaves the loop by \<open>break\<close>, or reaches the progress update with the
  results of the search.
\<close>

datatype try_outcome =
    Threw string loop_state
  | Broke loop_state
  | Reached company_results loop_state


definition search_params :: "lead_processor \<Rightarrow> string \<Rightarrow> string \<Rightarrow> nat \<Rightarrow> company_search_params" where
  "search_params lp loc naics pg =
     \<lparr> q_metroRegion = (if isMetroRegion loc then Some loc else None),
       q_state = (if isMetroRegion loc then None else Some loc),
       q_naicsCodes = naics, q_rpp = batchSize lp, q_page = pg \<rparr>"

definition try_page :: "services \<Rightarrow> lead_processor \<Rightarrow> string \<Rightarrow> string \<Rightarrow> string \<Rightarrow> loop_state \<Rightarrow> try_outcome" where
  "try_page svc lp loc naics jt st =
     (let w = l_world st;
          companySearchParams = search_params lp loc naics (l_page st);
          w1 = w\<lparr> apiCalls := Suc (apiCalls w),
                 companySearches := companySearches w @ [companySearchParams] \<rparr>;
          st1 = st\<lparr> l_world := w1 \<rparr>
      in case searchCompanies svc (apiCalls w) companySearchParams of
           Inl message \<Rightarrow> Threw message st1
         | Inr companyResults \<Rightarrow>
             (case r_data companyResults of
                None \<Rightarrow> Broke st1
              | Some [] \<Rightarrow> Broke st1
              | Some (c # cs) \<Rightarrow>
                  (let newCompanies = filter (\<lambda>x. \<not> isCompanyExcluded (bucketService w1) (c_id x)) (c # cs)
                   in if length newCompanies > 0
                      then
                        (case processCompaniesContacts svc lp newCompanies jt loc naics w1 of
                           (companies, contacts, w2) \<Rightarrow>
                             (let newZiIds = map (\<lambda>x. IdStr (toString (c_id x))) newCompanies;
                                  upd = updateCompanyExclusions (exclusionsWriteErr svc (apiCalls w2))
                                          (exclusionsUploadErr svc (apiCalls w2)) newZiIds (bucketService w2);
                                  st2 = st\<lparr> l_consecutiveEmptyPages := 0,
                                           l_companies := l_companies st @ companies,
                                           l_contacts := l_contacts st @ contacts,
                                           l_world := w2\<lparr> bucketService := snd upd \<rparr> \<rparr>
                              in case fst upd of
                                   Inl message \<Rightarrow> Threw message st2
                                 | Inr u \<Rightarrow> Reached companyResults st2))
                      else
                        (let st2 = st1\<lparr> l_consecutiveEmptyPages := Suc (l_consecutiveEmptyPages st) \<rparr>
                         in if l_consecutiveEmptyPages st2 \<ge> 3 then Broke st2
                            else Reached companyResults st2))))"

text \<open>One iteration of the \<open>while (hasMorePages)\<close> loop of \<open>processCombination\<close>.\<close>

definition page_step :: "services \<Rightarrow> lead_processor \<Rightarrow> string \<Rightarrow> string \<Rightarrow> string \<Rightarrow> loop_state \<Rightarrow> loop_state step" where
  "page_step svc lp loc naics jt st =
     (case try_page svc lp loc naics jt st of
        Threw message st1 \<Rightarrow> catch_page_error message st1
      | Broke st1 \<Rightarrow> Break st1
      | Reached companyResults st1 \<Rightarrow> finish_page lp companyResults st1)"

text \<open>
  The \<open>while\<close> loop. Nothing in the definition bounds the recursion: the loop has the value
  \<open>None\<close> exactly when it runs forever.
\<close>

partial_function (option) page_loop ::
  "services \<Rightarrow> lead_processor \<Rightarrow> string \<Rightarrow> string \<Rightarrow> string \<Rightarrow> loop_state \<Rightarrow> loop_state option" where
  "page_loop svc lp loc naics jt st =
     (case page_step svc lp loc naics jt st of
        Break st' \<Rightarrow> Some st'
      | Continue st' \<Rightarrow> page_loop svc lp loc naics jt st')"

declare page_loop.simps [code]

text \<open>
  \<open>processCombination\<close>: the pagination loop from \<open>state.currentPage || 1\<close>, then the
  results are saved when there are any (an error of \<open>saveResults\<close> is rethrown), and the
  page is reset.
\<close>

definition processCombination ::
  "services \<Rightarrow> lead_processor \<Rightarrow> string \<Rightarrow> string \<Rightarrow> string \<Rightarrow> world \<Rightarrow> ((string + unit) \<times> world) option" where
  "processCombination svc lp loc naics jt w =
     (let st = getCurrentState (stateManager w);
          pg = (if currentPage st = 0 then 1 else currentPage st)
      in case page_loop svc lp loc naics jt
                \<lparr> l_page = pg, l_consecutiveEmptyPages = 0, l_companies = [], l_contacts = [], l_world = w \<rparr> of
           None \<Rightarrow> None
         | Some fin \<Rightarrow>
             (let w1 = l_world fin;
                  saveErr = (if length (l_companies fin) > 0 \<or> length (l_contacts fin) > 0
                             then saveResultsErr svc (apiCalls w1) else None)
              in case saveErr of
                   Some e \<Rightarrow> Some (Inl e, w1)
                 | None \<Rightarrow>
                     Some (Inr (), w1\<lparr> stateManager :=
                                         updateProgress (\<lambda>s. s\<lparr> currentPage := 1 \<rparr>) (stateManager w1) \<rparr>)))"

text \<open>
  The \<open>for\<close> loop of \<open>processAllCombinations\<close> over the combinations from the starting
  index on; an error of a combination leaves the loop and the function.
\<close>

fun combinations_loop ::
  "services \<Rightarrow> lead_processor \<Rightarrow> nat \<Rightarrow> combination list \<Rightarrow> world \<Rightarrow> ((string + unit) \<times> world) option" where
  "combinations_loop svc lp combinationIndex [] w = Some (Inr (), w)"
| "combinations_loop svc lp combinationIndex (c # cs) w =
     (let w1 = w\<lparr> stateManager :=
                   updateProgress (\<lambda>s. s\<lparr> currentCombinationIndex := Some combinationIndex, currentPage := 1 \<rparr>)
                     (stateManager w) \<rparr>
      in case processCombination svc lp (location c) (naicsCode c) (jobTitle c) w1 of
           None \<Rightarrow> None
         | Some (Inl e, w2) \<Rightarrow> Some (Inl e, w2)
         | Some (Inr u, w2) \<Rightarrow> combinations_loop svc lp (Suc combinationIndex) cs w2)"

definition processAllCombinations ::
  "services \<Rightarrow> lead_processor \<Rightarrow> world \<Rightarrow> ((string + unit) \<times> world) option" where
  "processAllCombinations svc lp w =
     (let st = getCurrentState (stateManager w)
      in if completed st then Some (Inr (), w)
         else
           (let startingIndex = (case currentCombinationIndex st of None \<Rightarrow> 0 | Some k \<Rightarrow> k)
            in case combinations_loop svc lp startingIndex (drop startingIndex (searchCombinations lp)) w of
                 None \<Rightarrow> None
               | Some (Inl e, w') \<Rightarrow> Some (Inl e, w')
               | Some (Inr u, w') \<Rightarrow>
                   Some (Inr (), w'\<lparr> stateManager :=
                                      markCompleted (clock svc (apiCalls w')) (stateMkdirErr svc (apiCalls w'))
                                        (stateWriteErr svc (apiCalls w')) (stateManager w') \<rparr>)))"


text \<open>
  The entry the inner loop adds for a contact whose enrichment is the answer to call \<open>k\<close>,
  if it adds one; and the acceptance condition in the specification's words: the
  enrichment record exists and at least one of email, phone and mobile phone is populated.
\<close>

definition contact_entry :: "services \<Rightarrow> company \<Rightarrow> string \<Rightarrow> string \<Rightarrow> string \<Rightarrow> nat \<Rightarrow> contact \<Rightarrow> contact_data option" where
  "contact_entry svc co jt loc naics k c =
     (case enrichContact svc k (toString (p_id c)) of
        Inl enrichError \<Rightarrow> None
      | Inr None \<Rightarrow> None
      | Inr (Some d) \<Rightarrow>
          (if js_truthy (e_email d) \<or> js_truthy (e_phone d) \<or> js_truthy (e_mobilePhone d)
           then Some (make_contactData co c d jt loc naics) else None))"

text \<open>
  The contacts of a list of companies, company by company, when the first call is call
  \<open>n\<close>: one contact search per company, then one enrichment per contact found.
\<close>

fun contacts_of_companies ::
  "services \<Rightarrow> lead_processor \<Rightarrow> string \<Rightarrow> string \<Rightarrow> string \<Rightarrow> company list \<Rightarrow> nat \<Rightarrow> contact_data list" where
  "contacts_of_companies svc lp jt loc naics [] n = []"
| "contacts_of_companies svc lp jt loc naics (co # rest) n =
     (case searchContacts svc n \<lparr> k_companyId = toString (c_id co), k_jobTitle = jt,
             k_contactAccuracyScoreMin = ''75'', k_excludePartialProfiles = True,
             k_rpp = batchSize lp \<rparr> of
        Inl err \<Rightarrow> contacts_of_companies svc lp jt loc naics rest (Suc n)
      | Inr None \<Rightarrow> contacts_of_companies svc lp jt loc naics rest (Suc n)
      | Inr (Some cs) \<Rightarrow>
          List.map_filter (\<lambda>(k, c). contact_entry svc co jt loc naics k c) (enumerate (Suc n) cs)
            @ contacts_of_companies svc lp jt loc naics rest (Suc n + length cs))"

definition accepted_at :: "services \<Rightarrow> nat \<Rightarrow> contact \<Rightarrow> bool" where
  "accepted_at svc k c =
     (case enrichContact svc k (toString (p_id c)) of
        Inl enrichError \<Rightarrow> False
      | Inr None \<Rightarrow> False
      | Inr (Some d) \<Rightarrow> js_truthy (e_email d) \<or> js_truthy (e_phone d) \<or> js_truthy (e_mobilePhone d))"
















section \<open>Concrete runs\<close>

text \<open>A remote API with no companies at all, and writes that succeed.\<close>

definition quiet_services :: services where
  "quiet_services =
     \<lparr> searchCompanies = (\<lambda>n q. Inr \<lparr> r_data = Some [], r_totalCount = Some 0 \<rparr>),
       searchContacts = (\<lambda>n q. Inr (Some [])),
       enrichContact = (\<lambda>n pid. Inr None),
       exclusionsWriteErr = (\<lambda>n. None),
       exclusionsUploadErr = (\<lambda>n. None),
       saveResultsErr = (\<lambda>n. None),
       clock = (\<lambda>n. 1000 * n),
       stateMkdirErr = (\<lambda>n. None),
       stateWriteErr = (\<lambda>n. None) \<rparr>"



definition colorado_group :: param_group where
  "colorado_group = \<lparr> locations = Some [''Colorado''], job_titles = Some [''Project Manager''],
      naics_codes = Some [\<lparr> entry_naicsCode = ''236118'', entry_name = ''Residential Remodelers'' \<rparr>] \<rparr>"

text \<open>The world after \<open>loadState\<close> has read the persisted state \<open>s\<close>, with no exclusions.\<close>

definition loaded_world :: "job_state \<Rightarrow> world" where
  "loaded_world s = \<lparr> stateManager = \<lparr> state = s, stateFile = Some s \<rparr>,
      bucketService = new_BucketService, apiCalls = 0, companySearches = [] \<rparr>"


text \<open>
  A service holding the unexpired token \<open>STALE\<close> in memory and in its file, and a remote
  side that rejects \<open>STALE\<close> with 401, accepts every other token and hands out \<open>FRESH\<close>
  on authentication.
\<close>

definition stale_service :: zoominfo_service where
  "stale_service = \<lparr> currentToken = Some ''STALE'', tokenExpiresAt = Some 3600000,
      tokenFile = Some \<lparr> tf_token = ''STALE'', tf_expiresAt = 3600000 \<rparr> \<rparr>"

definition rejecting_env :: zi_env where
  "rejecting_env =
     \<lparr> env_now = (\<lambda>k. 1000 * k),
       env_authenticate = (\<lambda>k. Inr ''FRESH''),
       env_tokenWriteErr = (\<lambda>k. None),
       env_post = (\<lambda>k token. if token = ''STALE'' then HttpError (Some 401) else HttpOk ''page'') \<rparr>"


section \<open>Properties of the combination builder\<close>

lemma length_group_combinations:
  "length (group_combinations gi locs naics ts) = length locs * length ts * length naics"
proof -
  have inner: "length (concat (map (\<lambda>nc. map (f nc) ts) naics)) = length naics * length ts" for f :: "naics_entry \<Rightarrow> string \<Rightarrow> combination"
    by (induction naics) simp_all
  have outer: "length (concat (map (\<lambda>loc. concat (map (\<lambda>nc. map (f loc nc) ts) naics)) locs))
      = length locs * (length naics * length ts)" for f :: "string \<Rightarrow> naics_entry \<Rightarrow> string \<Rightarrow> combination"
    by (induction locs) (simp_all add: inner)
  show ?thesis
    unfolding group_combinations_def by (simp add: outer mult.commute mult.left_commute)
qed

lemma length_groups_loop:
  "length (groups_loop gi gs acc) = length acc + sum_list (map spec_group_count gs)"
proof (induction gs arbitrary: gi acc)
  case Nil
  then show ?case by simp
next
  case (Cons g gs)
  show ?case
  proof (cases "no_length (locations g) \<or> no_length (job_titles g) \<or> no_length (naics_codes g)")
    case True
    then have "spec_group_count g = 0"
      by (auto simp: spec_group_count_def no_length_def split: option.splits)
    with True Cons.IH show ?thesis by simp
  next
    case False
    then obtain ls ts ns where some: "locations g = Some ls" "job_titles g = Some ts" "naics_codes g = Some ns"
      and ne: "ls \<noteq> []" "ts \<noteq> []" "ns \<noteq> []"
      by (auto simp: no_length_def split: option.splits)
    then have "spec_group_count g = length ls * length (cleanJobTitles (TitleArray ts)) * length ns"
      by (simp add: spec_group_count_def)
    with False some Cons.IH show ?thesis
      by (simp add: length_group_combinations elements_def)
  qed
qed

text \<open>
  C5. For every group configuration, the number of combinations that
  \<open>getSearchCombinations\<close> returns is the sum, over the groups, of
  \<open>|locations| * |job titles after cleaning| * |naics_codes|\<close> for a group whose three
  lists are all present and non-empty, and of zero for a group missing any of them.
\<close>

theorem getSearchCombinations_length:
  "length (getSearchCombinations groups) = sum_list (map spec_group_count groups)"
  by (simp add: getSearchCombinations_def length_groups_loop)

section \<open>Properties of the title cleaning\<close>

lemma split_comma_no_comma: "p \<in> set (split_comma s) \<Longrightarrow> CHR '','' \<notin> set p"
  by (induction s arbitrary: p) (auto split: list.splits if_splits)

lemma split_comma_id: "CHR '','' \<notin> set s \<Longrightarrow> split_comma s = [s]"
  by (induction s) (auto split: list.splits)

lemma set_js_trim: "x \<in> set (js_trim s) \<Longrightarrow> x \<in> set s"
  by (metis js_trim_def set_dropWhileD set_rev)

lemma dropWhile_id: "xs \<noteq> [] \<Longrightarrow> \<not> P (hd xs) \<Longrightarrow> dropWhile P xs = xs"
  by (cases xs) auto

lemma drop_end_id: "xs \<noteq> [] \<Longrightarrow> \<not> P (last xs) \<Longrightarrow> rev (dropWhile P (rev xs)) = xs"
  by (simp add: dropWhile_id hd_rev)

lemma js_trim_id: "t \<noteq> [] \<Longrightarrow> \<not> is_js_space (hd t) \<Longrightarrow> \<not> is_js_space (last t) \<Longrightarrow> js_trim t = t"
  by (simp add: js_trim_def dropWhile_id drop_end_id)

lemma strip_junk_id: "t \<noteq> [] \<Longrightarrow> \<not> is_lead_junk (hd t) \<Longrightarrow> \<not> is_trail_junk (last t) \<Longrightarrow> strip_junk t = t"
  by (simp add: strip_junk_def dropWhile_id drop_end_id)

lemma hd_dropWhile_not: "dropWhile P xs \<noteq> [] \<Longrightarrow> \<not> P (hd (dropWhile P xs))"
  by (simp add: hd_dropWhile)

lemma js_trim_ends:
  assumes "js_trim s \<noteq> []"
  shows "\<not> is_js_space (hd (js_trim s))" and "\<not> is_js_space (last (js_trim s))"
proof -
  let ?a = "dropWhile is_js_space s"
  let ?b = "dropWhile is_js_space (rev ?a)"
  from assms have b: "?b \<noteq> []" by (simp add: js_trim_def)
  then have a: "?a \<noteq> []" by (metis dropWhile.simps(1) rev.simps(1))
  have "\<not> is_js_space (hd ?b)" using b by (rule hd_dropWhile_not)
  then show "\<not> is_js_space (last (js_trim s))" using b by (simp add: js_trim_def last_rev)
  have ha: "\<not> is_js_space (hd ?a)" using a by (rule hd_dropWhile_not)
  obtain ys where ys: "rev ?a = ys @ ?b"
    by (metis takeWhile_dropWhile_id)
  then have "?a = rev ?b @ rev ys" by (metis rev_append rev_rev_ident)
  then have "hd ?a = hd (rev ?b)" using b by (metis hd_append2 rev_is_Nil_conv)
  with ha show "\<not> is_js_space (hd (js_trim s))" by (simp add: js_trim_def)
qed

lemma clean_title_props:
  assumes "t \<in> set (clean_title raw)"
  shows "t \<noteq> []" and "CHR '','' \<notin> set t" and "\<not> is_js_space (hd t)" and "\<not> is_js_space (last t)"
proof -
  from assms obtain p where p: "p \<in> set (split_comma (strip_junk raw))" and t: "t = js_trim p" and ne: "t \<noteq> []"
    by (auto simp: clean_title_def split: if_splits)
  show "t \<noteq> []" by (rule ne)
  from p have "CHR '','' \<notin> set p" by (rule split_comma_no_comma)
  then show "CHR '','' \<notin> set t" using set_js_trim t by blast
  show "\<not> is_js_space (hd t)" "\<not> is_js_space (last t)" using js_trim_ends ne t by auto
qed

lemma clean_title_fix: "is_clean_title t \<Longrightarrow> clean_title t = [t]"
  by (simp add: is_clean_title_def clean_title_def strip_junk_id split_comma_id js_trim_id)

lemma clean_list_fix: "list_all is_clean_title ts \<Longrightarrow> concat (map clean_title ts) = ts"
  by (induction ts) (simp_all add: clean_title_fix)

lemma cleanJobTitles_props:
  "t \<in> set (cleanJobTitles a) \<Longrightarrow>
     t \<noteq> [] \<and> CHR '','' \<notin> set t \<and> \<not> is_js_space (hd t) \<and> \<not> is_js_space (last t)"
  by (cases a) (auto dest: clean_title_props)

text \<open>
  C7, as stated, fails: cleaning is not idempotent on every list of raw titles. The raw
  title \<open>{PM},{QA}\<close> loses its outer braces only; the pieces \<open>PM}\<close> and \<open>{QA\<close> of the
  first cleaning are stripped again by the second.
\<close>

theorem cleanJobTitles_not_idempotent:
  "cleanJobTitles (TitleArray [''{PM},{QA}'']) = [''PM}'', ''{QA'']
   \<and> cleanJobTitles (TitleArray (cleanJobTitles (TitleArray [''{PM},{QA}'']))) = [''PM'', ''QA'']
   \<and> cleanJobTitles (TitleArray (cleanJobTitles (TitleArray [''{PM},{QA}''])))
       \<noteq> cleanJobTitles (TitleArray [''{PM},{QA}''])"
  by (simp add: clean_title_def strip_junk_def is_lead_junk_def is_trail_junk_def js_trim_def is_js_space_def)

text \<open>
  C7, amended. Cleaning twice gives the same as cleaning once whenever no title of the
  first cleaning begins with a brace or quote or ends with a quote or closing brace; and
  a list of clean titles (non-empty, without comma, without white space, brace or quote
  at the ends) is returned unchanged.
\<close>

theorem cleanJobTitles_idempotent_when_clean:
  "(list_all no_junk_ends (cleanJobTitles a) \<longrightarrow>
      cleanJobTitles (TitleArray (cleanJobTitles a)) = cleanJobTitles a)
   \<and> (list_all is_clean_title ts \<longrightarrow> cleanJobTitles (TitleArray ts) = ts)"
proof (intro conjI impI)
  assume h: "list_all no_junk_ends (cleanJobTitles a)"
  have "list_all is_clean_title (cleanJobTitles a)"
    unfolding list_all_iff is_clean_title_def
    using h cleanJobTitles_props by (auto simp: list_all_iff no_junk_ends_def)
  then show "cleanJobTitles (TitleArray (cleanJobTitles a)) = cleanJobTitles a"
    by (simp add: clean_list_fix)
next
  assume "list_all is_clean_title ts"
  then show "cleanJobTitles (TitleArray ts) = ts"
    by (simp add: clean_list_fix)
qed

theorem cleanJobTitles_idempotent_when_clean_witness:
  "list_all no_junk_ends (cleanJobTitles (TitleArray [''{PM, QA }'']))
   \<and> cleanJobTitles (TitleArray (cleanJobTitles (TitleArray [''{PM, QA }''])))
       = cleanJobTitles (TitleArray [''{PM, QA }''])
   \<and> list_all is_clean_title [''PM'', ''QA'']
   \<and> cleanJobTitles (TitleArray [''PM'', ''QA'']) = [''PM'', ''QA'']"
  using cleanJobTitles_idempotent_when_clean [of "TitleArray [''{PM, QA }'']" "[''PM'', ''QA'']"]
  by (simp add: clean_title_def strip_junk_def is_lead_junk_def is_trail_junk_def js_trim_def
      is_js_space_def no_junk_ends_def is_clean_title_def)


section \<open>Properties of the exclusion store and of the durable writes\<close>

lemma set_set_add: "set (set_add s xs) = insert s (set xs)"
  by (auto simp: set_add_def)

lemma set_fold_set_add:
  "set (fold (\<lambda>ziId xs. set_add (toString ziId) xs) ids xs) = set xs \<union> toString ` set ids"
  by (induction ids arbitrary: xs) (auto simp: set_set_add)

lemma exclusions_after_update:
  "set (companyExclusions (snd (updateCompanyExclusions writeErr uploadErr ids b)))
     = set (companyExclusions b) \<union> toString ` set ids"
  by (simp add: updateCompanyExclusions_def Let_def set_fold_set_add split: option.splits)

lemma exclusions_grow_op:
  "set (companyExclusions b) \<subseteq> set (companyExclusions (apply_bucket_op op b))"
  by (cases op) (auto simp: exclusions_after_update)

lemma exclusions_grow_run:
  "set (companyExclusions b) \<subseteq> set (companyExclusions (run_bucket_ops ops b))"
  unfolding run_bucket_ops_def
proof (induction ops arbitrary: b)
  case Nil
  show ?case by simp
next
  case (Cons op ops)
  have "set (companyExclusions b) \<subseteq> set (companyExclusions (apply_bucket_op op b))"
    by (rule exclusions_grow_op)
  also have "\<dots> \<subseteq> set (companyExclusions (fold apply_bucket_op ops (apply_bucket_op op b)))"
    by (rule Cons.IH)
  finally show ?case by simp
qed

lemma update_present_id:
  "toString x \<in> set (companyExclusions b) \<Longrightarrow>
     companyExclusions (snd (updateCompanyExclusions writeErr uploadErr [x] b)) = companyExclusions b"
  by (simp add: updateCompanyExclusions_def Let_def set_add_def split: option.splits)

text \<open>
  C8. Once \<open>updateCompanyExclusions\<close> has added an id, \<open>isCompanyExcluded\<close> returns true
  for it after every further run of \<open>isCompanyExcluded\<close> and \<open>updateCompanyExclusions\<close>
  calls, whatever the outcome of their writes; and adding an id that is already present
  leaves the set as it was.
\<close>

theorem exclusion_set_monotonic_idempotent:
  "(x \<in> set ids \<longrightarrow>
      isCompanyExcluded (run_bucket_ops ops (snd (updateCompanyExclusions writeErr uploadErr ids b))) x)
   \<and> (isCompanyExcluded b x \<longrightarrow>
      companyExclusions (snd (updateCompanyExclusions writeErr uploadErr [x] b)) = companyExclusions b)"
proof (intro conjI impI)
  assume "x \<in> set ids"
  then have "toString x \<in> set (companyExclusions (snd (updateCompanyExclusions writeErr uploadErr ids b)))"
    by (simp add: exclusions_after_update)
  then show "isCompanyExcluded (run_bucket_ops ops (snd (updateCompanyExclusions writeErr uploadErr ids b))) x"
    unfolding isCompanyExcluded_def using exclusions_grow_run by blast
next
  assume "isCompanyExcluded b x"
  then show "companyExclusions (snd (updateCompanyExclusions writeErr uploadErr [x] b)) = companyExclusions b"
    by (simp add: isCompanyExcluded_def update_present_id)
qed

theorem exclusion_set_monotonic_idempotent_witness:
  "IdNum 7 \<in> set [IdNum 7, IdStr ''x9'']
   \<and> isCompanyExcluded
       (run_bucket_ops [OpIsExcluded (IdNum 7), OpUpdate None (Some ''EIO'') [IdNum 8]]
          (snd (updateCompanyExclusions None None [IdNum 7, IdStr ''x9''] new_BucketService))) (IdNum 7)
   \<and> isCompanyExcluded (new_BucketService\<lparr> companyExclusions := [''7''] \<rparr>) (IdNum 7)
   \<and> companyExclusions (snd (updateCompanyExclusions None None [IdNum 7]
         (new_BucketService\<lparr> companyExclusions := [''7''] \<rparr>))) = [''7'']"
  using exclusion_set_monotonic_idempotent [of "IdNum 7" "[IdNum 7, IdStr ''x9'']"
      "[OpIsExcluded (IdNum 7), OpUpdate None (Some ''EIO'') [IdNum 8]]" None None new_BucketService]
    exclusion_set_monotonic_idempotent [of "IdNum 7" "[]" "[]" None None
      "new_BucketService\<lparr> companyExclusions := [''7''] \<rparr>"]
  by (simp add: isCompanyExcluded_def new_BucketService_def)

text \<open>
  C10. After \<open>updateCompanyExclusions([x])\<close>, \<open>isCompanyExcluded\<close> returns true for \<open>x\<close>
  and for every \<open>y\<close> with the same string form, be it a number or a string: both
  operations go through \<open>toString\<close>.
\<close>

theorem id_forms_interchangeable:
  "toString y = toString x \<Longrightarrow>
     isCompanyExcluded (snd (updateCompanyExclusions writeErr uploadErr [x] b)) x
     \<and> isCompanyExcluded (snd (updateCompanyExclusions writeErr uploadErr [x] b)) y"
  by (simp add: isCompanyExcluded_def exclusions_after_update)

theorem id_forms_interchangeable_witness:
  "toString (IdStr ''42'') = toString (IdNum 42)
   \<and> isCompanyExcluded (snd (updateCompanyExclusions None None [IdNum 42] new_BucketService)) (IdNum 42)
   \<and> isCompanyExcluded (snd (updateCompanyExclusions None None [IdNum 42] new_BucketService)) (IdStr ''42'')"
  using id_forms_interchangeable [of "IdStr ''42''" "IdNum 42" None None new_BucketService]
  by simp

text \<open>
  C2, as stated, fails for \<open>saveState\<close>: when the write of the state file fails, the call
  completes normally; the error is not raised to the caller and the file is not written.
\<close>

theorem saveState_swallows_write_error:
  "fst (saveState 1000 None (Some ''ENOSPC'') new_StateManager) = Inr ()
   \<and> fst (saveState 1000 None (Some ''ENOSPC'') new_StateManager) \<noteq> Inl ''ENOSPC''
   \<and> stateFile (snd (saveState 1000 None (Some ''ENOSPC'') new_StateManager)) = None"
  by (simp add: saveState_def new_StateManager_def)

text \<open>
  C2, amended. A failure of either durable write of the exclusion set is raised again to
  the caller of \<open>updateCompanyExclusions\<close>; \<open>saveState\<close> completes normally whatever the
  outcome of its writes.
\<close>

theorem durable_write_errors:
  "fst (updateCompanyExclusions (Some e) uploadErr newZiIds b) = Inl e
   \<and> fst (updateCompanyExclusions None (Some e) newZiIds b) = Inl e
   \<and> fst (saveState now mkdirErr writeErr m) = Inr ()"
  by (simp add: updateCompanyExclusions_def saveState_def Let_def split: option.splits)

section \<open>Properties of the contact pipeline\<close>

lemma enrich_loop_entries:
  "fst (enrich_loop svc co jt loc naics cs acc n)
     = acc @ List.map_filter (\<lambda>(k, c). contact_entry svc co jt loc naics k c) (enumerate n cs)"
proof (induction cs arbitrary: acc n)
  case Nil
  show ?case by (simp add: List.map_filter_simps)
next
  case (Cons c cs)
  show ?case
  proof (cases "enrichContact svc n (toString (p_id c))")
    case (Inl e)
    then show ?thesis by (simp add: Cons.IH contact_entry_def List.map_filter_simps)
  next
    case (Inr r)
    show ?thesis
    proof (cases r)
      case None
      with Inr show ?thesis
        by (simp add: Cons.IH contact_entry_def List.map_filter_simps)
    next
      case (Some d)
      with Inr show ?thesis
        by (simp add: Cons.IH contact_entry_def has_contact_info_def List.map_filter_simps)
    qed
  qed
qed

lemma enrich_loop_calls: "snd (enrich_loop svc co jt loc naics cs acc n) = n + length cs"
  by (induction cs arbitrary: acc n) (auto split: sum.splits option.splits)

lemma companies_loop_contacts:
  "fst (snd (companies_loop svc lp jt loc naics cos accC accT w))
     = accT @ contacts_of_companies svc lp jt loc naics cos (apiCalls w)"
proof (induction cos arbitrary: accC accT w)
  case Nil
  show ?case by simp
next
  case (Cons co rest)
  let ?q = "\<lparr> k_companyId = toString (c_id co), k_jobTitle = jt,
             k_contactAccuracyScoreMin = ''75'', k_excludePartialProfiles = True,
             k_rpp = batchSize lp \<rparr>"
  show ?case
  proof (cases "searchContacts svc (apiCalls w) ?q")
    case (Inl e)
    then show ?thesis by (simp add: Cons.IH)
  next
    case (Inr r)
    show ?thesis
    proof (cases r)
      case None
      with Inr show ?thesis by (simp add: Cons.IH)
    next
      case (Some cs)
      obtain out m where el: "enrich_loop svc co jt loc naics cs accT (Suc (apiCalls w)) = (out, m)"
        by (cases "enrich_loop svc co jt loc naics cs accT (Suc (apiCalls w))")
      from el have out: "out = accT @ List.map_filter (\<lambda>(k, c). contact_entry svc co jt loc naics k c)
                                   (enumerate (Suc (apiCalls w)) cs)"
        using enrich_loop_entries [of svc co jt loc naics cs accT "Suc (apiCalls w)"] by simp
      from el have m: "m = Suc (apiCalls w) + length cs"
        using enrich_loop_calls [of svc co jt loc naics cs accT "Suc (apiCalls w)"] by simp
      from Inr Some el show ?thesis
        by (simp add: Cons.IH out m)
    qed
  qed
qed

lemma contact_entry_accepted:
  "(contact_entry svc co jt loc naics k c \<noteq> None) = accepted_at svc k c"
  by (auto simp: contact_entry_def accepted_at_def split: sum.splits option.splits)

text \<open>
  C6. \<open>processCompaniesContacts\<close> returns as contacts, in order, exactly the contacts of
  the contact searches whose enrichment record exists and has at least one of email, phone
  and mobile phone populated: its inner loop adds those of one company (the contact at
  position \<open>i\<close> is enriched by call \<open>n + i\<close>), its outer loop those of every company.
  A record with only the mobile phone populated passes the test; a record with none of
  the three populated, or with all three empty, and a missing record do not.
\<close>

theorem contact_accepted_iff_some_channel:
  "fst (enrich_loop svc co jt loc naics cs acc n)
     = acc @ List.map_filter (\<lambda>(k, c). contact_entry svc co jt loc naics k c) (enumerate n cs)
   \<and> fst (snd (processCompaniesContacts svc lp companies jt loc naics w))
     = contacts_of_companies svc lp jt loc naics companies (apiCalls w)
   \<and> (contact_entry svc co jt loc naics k c \<noteq> None) = accepted_at svc k c
   \<and> has_contact_info (Some \<lparr> e_email = None, e_phone = None, e_mobilePhone = Some (x # xs) \<rparr>)
   \<and> \<not> has_contact_info (Some \<lparr> e_email = None, e_phone = None, e_mobilePhone = None \<rparr>)
   \<and> \<not> has_contact_info (Some \<lparr> e_email = Some [], e_phone = Some [], e_mobilePhone = Some [] \<rparr>)
   \<and> \<not> has_contact_info None"
  using contact_entry_accepted [of svc co jt loc naics k c]
  by (simp add: enrich_loop_entries companies_loop_contacts processCompaniesContacts_def
      has_contact_info_def js_truthy_def)


section \<open>Properties of the job driver\<close>

text \<open>
  C9. When the loaded state has \<open>completed = true\<close>, \<open>processAllCombinations\<close> returns at
  once: the state manager, the exclusion set, the count of API calls and the list of
  company searches issued are as before.
\<close>

theorem completed_is_noop:
  "completed (getCurrentState (stateManager w)) \<Longrightarrow> processAllCombinations svc lp w = Some (Inr (), w)"
  by (simp add: processAllCombinations_def)

theorem completed_is_noop_witness:
  "completed (getCurrentState (stateManager (loaded_world (initial_state\<lparr> completed := True \<rparr>))))
   \<and> processAllCombinations quiet_services (new_LeadProcessor None [colorado_group])
        (loaded_world (initial_state\<lparr> completed := True \<rparr>))
      = Some (Inr (), loaded_world (initial_state\<lparr> completed := True \<rparr>))"
  using completed_is_noop [of "loaded_world (initial_state\<lparr> completed := True \<rparr>)" quiet_services
      "new_LeadProcessor None [colorado_group]"]
  by (simp add: getCurrentState_def loaded_world_def initial_state_def)

lemma colorado_processor:
  "new_LeadProcessor None [colorado_group] =
     \<lparr> batchSize = 50,
       searchCombinations = [\<lparr> groupIndex = 0, location = ''Colorado'', naicsCode = ''236118'',
          naicsName = ''Residential Remodelers'', jobTitle = ''Project Manager'' \<rparr>] \<rparr>"
  by (simp add: new_LeadProcessor_def colorado_group_def getSearchCombinations_def no_length_def
      elements_def group_combinations_def clean_title_def strip_junk_def is_lead_junk_def is_trail_junk_def
      js_trim_def is_js_space_def)

text \<open>
  C1 does not hold of the code. With the persisted progress \<open>currentCombinationIndex = 0\<close>
  and \<open>currentPage = 3\<close>, the driver overwrites \<open>currentPage\<close> with 1 before it calls
  \<open>processCombination\<close>, so the first (here the only) company search of the resumed
  combination asks for page 1, not page 3.
\<close>

theorem resume_restarts_at_page_one:
  "map_option (\<lambda>(r, w). map q_page (companySearches w))
     (processAllCombinations quiet_services (new_LeadProcessor None [colorado_group])
        (loaded_world (initial_state\<lparr> currentCombinationIndex := Some 0, currentPage := 3 \<rparr>)))
   = Some [1]"
  by (simp add: colorado_processor processAllCombinations_def getCurrentState_def loaded_world_def
      initial_state_def processCombination_def page_loop.simps page_step_def try_page_def
      search_params_def quiet_services_def updateProgress_def Let_def)


section \<open>Properties of the API client\<close>

text \<open>
  C3 does not hold of the code. The service holds the unexpired token \<open>STALE\<close> in memory;
  the API answers it with 401. Each retry unlinks the token file, but \<open>getJwtToken\<close>
  returns the token in memory again: all four requests carry \<open>STALE\<close>, no new token is
  obtained, and the call ends with the 401 error. A service with no cached token, which
  has to authenticate, succeeds against the same API.
\<close>

theorem retry_reattaches_rejected_token:
  "fst (makeAPICall rejecting_env (maxRetries_of None) 0 stale_service) = Inl (RequestFailed (Some 401))
   \<and> snd (snd (makeAPICall rejecting_env (maxRetries_of None) 0 stale_service))
       = [''STALE'', ''STALE'', ''STALE'', ''STALE'']
   \<and> currentToken (fst (snd (makeAPICall rejecting_env (maxRetries_of None) 0 stale_service))) = Some ''STALE''
   \<and> fst (makeAPICall rejecting_env (maxRetries_of None) 0
            \<lparr> currentToken = None, tokenExpiresAt = None, tokenFile = None \<rparr>) = Inr ''page''"
  by (simp add: maxRetries_of_def rejecting_env_def stale_service_def getJwtToken_def
      token_from_file_def refreshToken_def)


section \<open>Properties of the pagination loop\<close>































end
